theory Spec2Isabelle
  imports Complex_Main
begin

section \<open>Numbers\<close>

text \<open>
  The calculators work on JavaScript numbers, IEEE doubles. A number is modelled here by
  the real it denotes: every arithmetic operation of the source is the corresponding
  operation on \<^typ>\<open>real\<close>, comparisons are the real comparisons, and \<open>Math.pow\<close> is the
  real power function. Rounding, \<open>NaN\<close> and the infinities are outside this model. It
  follows the program in the order in which the source composes its operations and in its
  control flow; it does not follow it in identities of real algebra between amounts that
  the source computes in different ways. In doubles \<open>(a - b) + b\<close> need not be \<open>a\<close>,
  \<open>1 + periodicRate\<close> is 1 for a periodic rate below \<open>2^-53\<close>, and the power term less 1
  loses digits for a small rate. The properties stated below are those of the source's
  own assignments, comparisons and branches. Sums and orderings of the computed amounts,
  which hold of the program up to rounding at best, are not among them, and no statement
  below depends on the value of \<open>Math_pow\<close>.
\<close>

definition Math_pow :: "real \<Rightarrow> real \<Rightarrow> real" where
  \<comment> \<open>\<open>Math.pow(x, y)\<close>; the loan calculator calls it with the base \<open>1 + periodicRate\<close>.\<close>
  "Math_pow x y = x powr y"

section \<open>Loan calculator: data\<close>

datatype RepaymentFrequency = Weekly | Fortnightly | Monthly

record LoanInputs =
  loanAmount :: real
  interestRate :: real
  loanTerm :: real
  repaymentFrequency :: RepaymentFrequency
  hasResidualPayment :: bool
  residualPayment :: real

record CalculationResults =
  repaymentPerPeriod :: real
  totalAmountPayable :: real
  totalInterest :: real
  periodsPerYear :: real
  totalPeriods :: real

record AmortizationEntry =
  paymentNumber :: real
  paymentAmount :: real
  principalAmount :: real
  interestAmount :: real
  remainingBalance :: real

section \<open>Loan calculator: the extracted logic module\<close>

definition periodsPerYearOf :: "RepaymentFrequency \<Rightarrow> real" where
  \<comment> \<open>\<open>repaymentFrequency === "weekly" ? 52 : repaymentFrequency === "fortnightly" ? 26 : 12\<close>\<close>
  "periodsPerYearOf f = (if f = Weekly then 52 else if f = Fortnightly then 26 else 12)"

definition calculateLoanRepayments :: "LoanInputs \<Rightarrow> CalculationResults option" where
  \<comment> \<open>\<open>null\<close> is \<open>None\<close>.\<close>
  "calculateLoanRepayments inputs =
    (if loanAmount inputs \<le> 0 \<or> interestRate inputs < 0 \<or> loanTerm inputs \<le> 0 then None
     else
       let ppy = periodsPerYearOf (repaymentFrequency inputs);
           periodicRate = interestRate inputs / 100 / ppy;
           totalP = loanTerm inputs * ppy;
           actualResidual = (if hasResidualPayment inputs then residualPayment inputs else 0);
           principalToAmortize = loanAmount inputs - actualResidual
       in
         if periodicRate = 0 then
           Some \<lparr> repaymentPerPeriod = principalToAmortize / totalP,
                  totalAmountPayable = principalToAmortize + actualResidual,
                  totalInterest = 0,
                  periodsPerYear = ppy,
                  totalPeriods = totalP \<rparr>
         else
           let powerTerm = Math_pow (1 + periodicRate) totalP;
               repayment = (principalToAmortize * periodicRate * powerTerm) / (powerTerm - 1);
               totalPayable = repayment * totalP + actualResidual
           in Some \<lparr> repaymentPerPeriod = repayment,
                       totalAmountPayable = totalPayable,
                       totalInterest = totalPayable - loanAmount inputs,
                       periodsPerYear = ppy,
                       totalPeriods = totalP \<rparr>)"

definition regularEntry :: "real \<Rightarrow> real \<Rightarrow> nat \<Rightarrow> real \<Rightarrow> AmortizationEntry" where
  \<comment> \<open>The entry pushed in the \<open>else\<close> branch of the loop body, for the balance before the payment.\<close>
  "regularEntry repayment periodicRate n bal =
     (let interestAmt = bal * periodicRate;
          principalAmt = repayment - interestAmt
      in \<lparr> paymentNumber = real n,
           paymentAmount = repayment,
           principalAmount = principalAmt,
           interestAmount = interestAmt,
           remainingBalance = max 0 (bal - principalAmt) \<rparr>)"

definition finalEntry :: "real \<Rightarrow> nat \<Rightarrow> real \<Rightarrow> AmortizationEntry" where
  \<comment> \<open>The entry pushed when \<open>paymentNumber === totalPeriods\<close>.\<close>
  "finalEntry periodicRate n bal =
     (let interestAmt = bal * periodicRate;
          adjustedPrincipal = bal;
          adjustedPayment = adjustedPrincipal + interestAmt
      in \<lparr> paymentNumber = real n,
           paymentAmount = adjustedPayment,
           principalAmount = adjustedPrincipal,
           interestAmount = interestAmt,
           remainingBalance = 0 \<rparr>)"

function scheduleLoop ::
  "real \<Rightarrow> real \<Rightarrow> real \<Rightarrow> nat \<Rightarrow> real \<Rightarrow> AmortizationEntry list \<Rightarrow> AmortizationEntry list" where
  \<comment> \<open>\<open>for (let paymentNumber = 1; paymentNumber <= totalPeriods; paymentNumber++)\<close>, with the
      loop variables \<open>paymentNumber\<close>, \<open>remainingBalance\<close> and \<open>schedule\<close> as arguments.\<close>
  "scheduleLoop repayment periodicRate totalP n bal schedule =
     (if real n \<le> totalP then
        (if real n = totalP then
           scheduleLoop repayment periodicRate totalP (n + 1) bal
             (schedule @ [finalEntry periodicRate n bal])
         else
           scheduleLoop repayment periodicRate totalP (n + 1)
             (bal - (repayment - bal * periodicRate))
             (schedule @ [regularEntry repayment periodicRate n bal]))
      else schedule)"
  by pat_completeness auto
termination
  by (relation "measure (\<lambda>(repayment, periodicRate, totalP, n, bal, schedule). nat \<lfloor>totalP\<rfloor> + 1 - n)")
     (auto dest!: le_nat_floor)

declare scheduleLoop.simps [simp del]

definition balloonEntry :: "real \<Rightarrow> real \<Rightarrow> AmortizationEntry" where
  "balloonEntry totalP residual =
     \<lparr> paymentNumber = totalP + 1,
       paymentAmount = residual,
       principalAmount = residual,
       interestAmount = 0,
       remainingBalance = 0 \<rparr>"

definition generateAmortizationSchedule ::
  "LoanInputs \<Rightarrow> CalculationResults option \<Rightarrow> AmortizationEntry list" where
  "generateAmortizationSchedule inputs calculationResults =
    (case calculationResults of
       None \<Rightarrow> []
     | Some res \<Rightarrow>
        let periodicRate = interestRate inputs / 100 / periodsPerYear res;
            actualResidual = (if hasResidualPayment inputs then residualPayment inputs else 0);
            principalToAmortize = loanAmount inputs - actualResidual;
            schedule = scheduleLoop (repaymentPerPeriod res) periodicRate (totalPeriods res) 1
                         principalToAmortize []
        in if hasResidualPayment inputs \<and> residualPayment inputs > 0
           then schedule @ [balloonEntry (totalPeriods res) (residualPayment inputs)]
           else schedule)"

section \<open>Loan calculator: the component\<close>

text \<open>
  The component keeps the inputs, the set of touched fields and the flag \<open>isFormValid\<close> as
  state. An effect recomputes the flag from the inputs after every change; the memoised
  \<open>calculateRepayments\<close> reads the flag. The flag is a parameter of the model of
  \<open>calculateRepayments\<close>, and \<open>isFormValid_loan\<close> is the value the effect stores.
\<close>

record LoanTouchedFields =
  touched_loanAmount :: bool
  touched_interestRate :: bool
  touched_loanTerm :: bool
  touched_residualPayment :: bool

record LoanValidationErrors =
  error_loanAmount :: "string option"
  error_interestRate :: "string option"
  error_loanTerm :: "string option"
  error_residualPayment :: "string option"

definition validateInputs_loan :: "LoanInputs \<Rightarrow> LoanTouchedFields \<Rightarrow> LoanValidationErrors" where
  "validateInputs_loan currentInputs touched =
     (let e0 = \<lparr> error_loanAmount = None, error_interestRate = None,
                  error_loanTerm = None, error_residualPayment = None \<rparr>;
          e1 = (if touched_loanAmount touched \<and> loanAmount currentInputs \<le> 0
                then e0 \<lparr> error_loanAmount := Some ''Loan amount must be greater than 0'' \<rparr>
                else e0);
          e2 = (if touched_interestRate touched \<and>
                   (interestRate currentInputs < 0 \<or> interestRate currentInputs > 100)
                then e1 \<lparr> error_interestRate := Some ''Interest rate must be between 0 and 100'' \<rparr>
                else e1);
          e3 = (if touched_loanTerm touched \<and>
                   (loanTerm currentInputs \<le> 0 \<or> loanTerm currentInputs > 7)
                then e2 \<lparr> error_loanTerm := Some ''Loan term must be between 0 and 7 years'' \<rparr>
                else e2);
          e4 = (if hasResidualPayment currentInputs \<and> touched_residualPayment touched \<and>
                   residualPayment currentInputs < 0
                then e3 \<lparr> error_residualPayment := Some ''Residual payment cannot be negative'' \<rparr>
                else e3);
          e5 = (if hasResidualPayment currentInputs \<and> touched_residualPayment touched \<and>
                   residualPayment currentInputs \<ge> loanAmount currentInputs
                then e4 \<lparr> error_residualPayment :=
                            Some ''Residual payment must be less than loan amount'' \<rparr>
                else e4)
      in e5)"

definition noErrors_loan :: "LoanValidationErrors \<Rightarrow> bool" where
  \<comment> \<open>\<open>Object.keys(newErrors).length === 0\<close>\<close>
  "noErrors_loan e \<longleftrightarrow>
     error_loanAmount e = None \<and> error_interestRate e = None \<and>
     error_loanTerm e = None \<and> error_residualPayment e = None"

definition isFormValid_loan :: "LoanInputs \<Rightarrow> LoanTouchedFields \<Rightarrow> bool" where
  "isFormValid_loan inputs touched \<longleftrightarrow>
     noErrors_loan (validateInputs_loan inputs touched) \<and>
     loanAmount inputs > 0 \<and> interestRate inputs \<ge> 0 \<and> loanTerm inputs > 0"

definition calculateRepayments :: "bool \<Rightarrow> LoanInputs \<Rightarrow> CalculationResults option" where
  "calculateRepayments isFormValid inputs =
    (if \<not> isFormValid then None
     else
       let ppy = periodsPerYearOf (repaymentFrequency inputs);
           periodicRate = interestRate inputs / 100 / ppy;
           totalP = loanTerm inputs * ppy;
           actualResidual = (if hasResidualPayment inputs then residualPayment inputs else 0);
           principalToAmortize = loanAmount inputs - actualResidual
       in
         if periodicRate = 0 then
           Some \<lparr> repaymentPerPeriod = principalToAmortize / totalP,
                  totalAmountPayable = principalToAmortize + actualResidual,
                  totalInterest = 0,
                  periodsPerYear = ppy,
                  totalPeriods = totalP \<rparr>
         else
           let powerTerm = Math_pow (1 + periodicRate) totalP;
               repayment = (principalToAmortize * periodicRate * powerTerm) / (powerTerm - 1);
               totalPayable = repayment * totalP + actualResidual
           in Some \<lparr> repaymentPerPeriod = repayment,
                       totalAmountPayable = totalPayable,
                       totalInterest = totalPayable - loanAmount inputs,
                       periodsPerYear = ppy,
                       totalPeriods = totalP \<rparr>)"

section \<open>Income tax calculator\<close>

datatype IncomeFrequency = IncomeAnnual | IncomeMonthly | IncomeWeekly

record TaxInputs =
  income :: real
  incomeFrequency :: IncomeFrequency

record TaxCalculationResults =
  grossIncome :: real
  taxableIncome :: real
  incomeTax :: real
  medicareLevy :: real
  medicareLevySurcharge :: real
  totalTax :: real
  netIncome :: real
  effectiveTaxRate :: real
  marginalTaxRate :: real

record TaxBracket =
  bracketMin :: real
  bracketMax :: "real option"
  bracketRate :: real
  baseTax :: real

record SurchargeThreshold =
  thresholdMin :: real
  thresholdMax :: "real option"
  thresholdRate :: real

record TaxBreakdownLine =
  rangeLabel :: string
  rateLabel :: string
  taxableAmount :: real
  taxAmount :: real
  isOffset :: bool

definition taxBrackets :: "TaxBracket list" where
  "taxBrackets =
     [ \<lparr> bracketMin = 0, bracketMax = Some 18200, bracketRate = 0, baseTax = 0 \<rparr>,
       \<lparr> bracketMin = 18201, bracketMax = Some 45000, bracketRate = 0.16, baseTax = 0 \<rparr>,
       \<lparr> bracketMin = 45001, bracketMax = Some 135000, bracketRate = 0.30, baseTax = 4288 \<rparr>,
       \<lparr> bracketMin = 135001, bracketMax = Some 190000, bracketRate = 0.37, baseTax = 31288 \<rparr>,
       \<lparr> bracketMin = 190001, bracketMax = None, bracketRate = 0.45, baseTax = 51638 \<rparr> ]"

definition medicareSurchargeThresholds :: "SurchargeThreshold list" where
  "medicareSurchargeThresholds =
     [ \<lparr> thresholdMin = 0, thresholdMax = Some 97000, thresholdRate = 0 \<rparr>,
       \<lparr> thresholdMin = 97001, thresholdMax = Some 113000, thresholdRate = 0.01 \<rparr>,
       \<lparr> thresholdMin = 113001, thresholdMax = Some 151000, thresholdRate = 0.0125 \<rparr>,
       \<lparr> thresholdMin = 151001, thresholdMax = None, thresholdRate = 0.015 \<rparr> ]"

definition validateInputs_tax :: "TaxInputs \<Rightarrow> bool \<Rightarrow> string option" where
  \<comment> \<open>The only key of the error object is \<open>income\<close>; the result is its value, if set.\<close>
  "validateInputs_tax currentInputs touched_income =
     (let e1 = (if touched_income \<and> income currentInputs \<le> 0
                then Some ''Income must be greater than 0'' else None);
          e2 = (if touched_income \<and> income currentInputs > 10000000
                then Some ''Income must be less than $10,000,000'' else e1)
      in e2)"

definition isFormValid_tax :: "TaxInputs \<Rightarrow> bool \<Rightarrow> bool" where
  "isFormValid_tax inputs touched_income \<longleftrightarrow>
     validateInputs_tax inputs touched_income = None \<and> income inputs > 0"

definition calculateLITO :: "real \<Rightarrow> real" where
  "calculateLITO taxable =
     (if taxable \<le> 37500 then 700
      else if taxable \<le> 45000 then max 0 (700 - ((taxable - 37500) * 0.05))
      else if taxable \<le> 66667 then max 0 (325 - ((taxable - 45000) * 0.015))
      else 0)"

definition calculateMedicareLevy :: "real \<Rightarrow> real" where
  "calculateMedicareLevy taxable =
     (let medicareThreshold = 27222;
          medicareUpperThreshold = 34027;
          medicareRate = 0.02
      in if taxable \<le> medicareThreshold then 0
         else if taxable \<le> medicareUpperThreshold then
           (let phaseInAmount = (taxable - medicareThreshold) * 0.1
            in min phaseInAmount (taxable * medicareRate))
         else taxable * medicareRate)"

fun surchargeLookup :: "SurchargeThreshold list \<Rightarrow> real \<Rightarrow> real" where
  \<comment> \<open>The \<open>for ... of\<close> loop with its early return; the final \<open>return 0\<close> is the empty case.\<close>
  "surchargeLookup [] taxable = 0"
| "surchargeLookup (bracket # rest) taxable =
     (if taxable \<ge> thresholdMin bracket \<and>
         (case thresholdMax bracket of None \<Rightarrow> True | Some m \<Rightarrow> taxable \<le> m)
      then taxable * thresholdRate bracket
      else surchargeLookup rest taxable)"

definition calculateMedicareLevySurcharge :: "real \<Rightarrow> real" where
  "calculateMedicareLevySurcharge taxable = surchargeLookup medicareSurchargeThresholds taxable"

definition calculateIncomeTax :: "real \<Rightarrow> real" where
  \<comment> \<open>\<open>totalTax\<close> is threaded through the four conditional updates as \<open>t1\<close> .. \<open>t4\<close>.\<close>
  "calculateIncomeTax taxable =
     (let t0 = 0;
          t1 = (if taxable > 18200
                then t0 + min (taxable - 18200) (45000 - 18200) * 0.16 else t0);
          t2 = (if taxable > 45000
                then t1 + min (taxable - 45000) (135000 - 45000) * 0.30 else t1);
          t3 = (if taxable > 135000
                then t2 + min (taxable - 135000) (190000 - 135000) * 0.37 else t2);
          t4 = (if taxable > 190000
                then t3 + (taxable - 190000) * 0.45 else t3);
          lito = calculateLITO taxable
      in max 0 (t4 - lito))"

definition bracketMatches :: "TaxBracket \<Rightarrow> real \<Rightarrow> bool" where
  \<comment> \<open>\<open>taxableIncome >= bracket.min && (bracket.max === null || taxableIncome <= bracket.max)\<close>\<close>
  "bracketMatches bracket taxable \<longleftrightarrow>
     taxable \<ge> bracketMin bracket \<and>
     (case bracketMax bracket of None \<Rightarrow> True | Some m \<Rightarrow> taxable \<le> m)"

fun marginalLookup :: "TaxBracket list \<Rightarrow> real \<Rightarrow> real" where
  \<comment> \<open>The \<open>for ... of\<close> loop with its early return; the final \<open>return 0\<close> is the empty case.\<close>
  "marginalLookup [] taxable = 0"
| "marginalLookup (bracket # rest) taxable =
     (if bracketMatches bracket taxable then bracketRate bracket
      else marginalLookup rest taxable)"

definition getMarginalTaxRate :: "real \<Rightarrow> real" where
  "getMarginalTaxRate taxable = marginalLookup taxBrackets taxable"

definition getAnnualIncome :: "real \<Rightarrow> IncomeFrequency \<Rightarrow> real" where
  "getAnnualIncome inc frequency =
     (case frequency of
        IncomeWeekly \<Rightarrow> inc * 52
      | IncomeMonthly \<Rightarrow> inc * 12
      | IncomeAnnual \<Rightarrow> inc)"

definition getFrequencyAmount :: "real \<Rightarrow> IncomeFrequency \<Rightarrow> real" where
  "getFrequencyAmount annualAmount frequency =
     (case frequency of
        IncomeWeekly \<Rightarrow> annualAmount / 52
      | IncomeMonthly \<Rightarrow> annualAmount / 12
      | IncomeAnnual \<Rightarrow> annualAmount)"

definition calculateTax :: "bool \<Rightarrow> TaxInputs \<Rightarrow> TaxCalculationResults option" where
  "calculateTax isFormValid inputs =
    (if \<not> isFormValid then None
     else
       let gross = getAnnualIncome (income inputs) (incomeFrequency inputs);
           taxable = gross;
           incTax = calculateIncomeTax taxable;
           levy = calculateMedicareLevy taxable;
           surcharge = calculateMedicareLevySurcharge taxable;
           total = incTax + levy + surcharge;
           net = gross - total;
           effective = (if gross > 0 then (total / gross) * 100 else 0);
           marginal = getMarginalTaxRate taxable * 100
       in Some \<lparr> grossIncome = gross,
                   taxableIncome = taxable,
                   incomeTax = incTax,
                   medicareLevy = levy,
                   medicareLevySurcharge = surcharge,
                   totalTax = total,
                   netIncome = net,
                   effectiveTaxRate = effective,
                   marginalTaxRate = marginal \<rparr>)"

definition taxBreakdown ::
  "bool \<Rightarrow> TaxCalculationResults option \<Rightarrow> TaxBreakdownLine list" where
  \<comment> \<open>\<open>breakdown\<close> is threaded through the conditional pushes as \<open>b1\<close> .. \<open>b6\<close>.\<close>
  "taxBreakdown isFormValid calc =
    (case calc of
       None \<Rightarrow> []
     | Some res \<Rightarrow>
        if \<not> isFormValid then []
        else
          let gross = grossIncome res;
              b0 = [];
              b1 = (if gross > 0
                    then b0 @ [\<lparr> rangeLabel = ''$0 - $18,200'', rateLabel = ''0.0%'',
                                 taxableAmount = min gross 18200, taxAmount = 0,
                                 isOffset = False \<rparr>]
                    else b0);
              b2 = (if gross > 18200
                    then b1 @ [\<lparr> rangeLabel = ''$18,201 - $45,000'', rateLabel = ''16.0%'',
                                 taxableAmount = min (gross - 18200) (45000 - 18200),
                                 taxAmount = min (gross - 18200) (45000 - 18200) * 0.16,
                                 isOffset = False \<rparr>]
                    else b1);
              b3 = (if gross > 45000
                    then b2 @ [\<lparr> rangeLabel = ''$45,001 - $135,000'', rateLabel = ''30.0%'',
                                 taxableAmount = min (gross - 45000) (135000 - 45000),
                                 taxAmount = min (gross - 45000) (135000 - 45000) * 0.30,
                                 isOffset = False \<rparr>]
                    else b2);
              b4 = (if gross > 135000
                    then b3 @ [\<lparr> rangeLabel = ''$135,001 - $190,000'', rateLabel = ''37.0%'',
                                 taxableAmount = min (gross - 135000) (190000 - 135000),
                                 taxAmount = min (gross - 135000) (190000 - 135000) * 0.37,
                                 isOffset = False \<rparr>]
                    else b3);
              b5 = (if gross > 190000
                    then b4 @ [\<lparr> rangeLabel = ''$190,001+'', rateLabel = ''45.0%'',
                                 taxableAmount = gross - 190000,
                                 taxAmount = (gross - 190000) * 0.45,
                                 isOffset = False \<rparr>]
                    else b4);
              litoAmount = calculateLITO gross;
              b6 = (if litoAmount > 0
                    then b5 @ [\<lparr> rangeLabel = ''Low Income Tax Offset'', rateLabel = ''Offset'',
                                 taxableAmount = gross, taxAmount = - litoAmount,
                                 isOffset = True \<rparr>]
                    else b5)
          in b6)"

definition breakdownTotal :: "TaxBreakdownLine list \<Rightarrow> real" where
  \<comment> \<open>\<open>taxBreakdown.reduce((sum, bracket) => sum + bracket.taxAmount, 0)\<close>, rendered by the
      component in the row labelled "Total Income Tax:".\<close>
  "breakdownTotal lines = foldl (\<lambda>sum bracket. sum + taxAmount bracket) 0 lines"

subsection \<open>The progressive bracket tax in the words of the specification\<close>

text \<open>
  The specification describes the bracket tax as the sum, over the brackets whose floor is
  below the income, of the part of the income inside the bracket times the bracket's rate.
  The table below carries the bracket boundaries that \<open>calculateIncomeTax\<close> uses (18200,
  45000, 135000, 190000), each bracket's floor being the previous bracket's ceiling; these
  are not the \<open>min\<close> fields of \<open>taxBrackets\<close>, which start one dollar higher.
\<close>

definition bracketTable_spec :: "(real \<times> real option \<times> real) list" where
  \<comment> \<open>(floor, ceiling, rate)\<close>
  "bracketTable_spec =
     [ (0, Some 18200, 0),
       (18200, Some 45000, 0.16),
       (45000, Some 135000, 0.30),
       (135000, Some 190000, 0.37),
       (190000, None, 0.45) ]"

definition portionInBracket_spec :: "real \<Rightarrow> real \<times> real option \<times> real \<Rightarrow> real" where
  \<comment> \<open>\<open>min(income - floor, width)\<close>, the width of the unbounded bracket being unlimited\<close>
  "portionInBracket_spec taxable b =
     (case b of (floor_b, ceiling_b, rate_b) \<Rightarrow>
        (case ceiling_b of None \<Rightarrow> taxable - floor_b
                         | Some c \<Rightarrow> min (taxable - floor_b) (c - floor_b)))"

definition computeBracketTax_spec :: "real \<Rightarrow> real" where
  "computeBracketTax_spec taxable =
     sum_list (map (\<lambda>b. portionInBracket_spec taxable b * snd (snd b))
                   (filter (\<lambda>b. fst b < taxable) bracketTable_spec))"

section \<open>Income annualisation calculator\<close>

datatype PayFrequency = PayWeekly | PayFortnightly | PayMonthly | PayQuarterly

record AnnualisationInputs =
  ytdIncome :: real
  paysReceived :: real
  payFrequency :: PayFrequency

record AnnualisationResults =
  averagePayAmount :: real
  annualisedIncome :: real
  totalPayPeriodsInYear :: real
  remainingPayPeriods :: real
  projectedRemainingIncome :: real
  monthsElapsed :: real

datatype AnnualisationMessage =
  Message string
  | CannotExceed real string
    \<comment> \<open>the template \<open>Cannot exceed ${max} pays for ${label.toLowerCase()} frequency\<close>, with
        its two holes\<close>

record AnnualisationErrors =
  error_ytdIncome :: "AnnualisationMessage option"
  error_paysReceived :: "AnnualisationMessage option"

definition payFrequencyConfig_periodsPerYear :: "PayFrequency \<Rightarrow> real" where
  "payFrequencyConfig_periodsPerYear f =
     (case f of PayWeekly \<Rightarrow> 52 | PayFortnightly \<Rightarrow> 26 | PayMonthly \<Rightarrow> 12 | PayQuarterly \<Rightarrow> 4)"

definition payFrequencyConfig_label :: "PayFrequency \<Rightarrow> string" where
  "payFrequencyConfig_label f =
     (case f of PayWeekly \<Rightarrow> ''Weekly'' | PayFortnightly \<Rightarrow> ''Fortnightly''
              | PayMonthly \<Rightarrow> ''Monthly'' | PayQuarterly \<Rightarrow> ''Quarterly'')"

definition validateInputs_annualisation ::
  "AnnualisationInputs \<Rightarrow> bool \<Rightarrow> bool \<Rightarrow> AnnualisationErrors" where
  "validateInputs_annualisation currentInputs touched_ytdIncome touched_paysReceived =
     (let maxPaysForFrequency = payFrequencyConfig_periodsPerYear (payFrequency currentInputs);
          e0 = \<lparr> error_ytdIncome = None, error_paysReceived = None \<rparr>;
          e1 = (if touched_ytdIncome \<and> ytdIncome currentInputs \<le> 0
                then e0 \<lparr> error_ytdIncome := Some (Message ''YTD income must be greater than 0'') \<rparr>
                else e0);
          e2 = (if touched_paysReceived \<and> paysReceived currentInputs \<le> 0
                then e1 \<lparr> error_paysReceived :=
                            Some (Message ''Pay periods received must be greater than 0'') \<rparr>
                else e1);
          e3 = (if touched_paysReceived \<and> paysReceived currentInputs > maxPaysForFrequency
                then e2 \<lparr> error_paysReceived :=
                            Some (CannotExceed maxPaysForFrequency
                                    (payFrequencyConfig_label (payFrequency currentInputs))) \<rparr>
                else e2)
      in e3)"

definition isFormValid_annualisation :: "AnnualisationInputs \<Rightarrow> bool \<Rightarrow> bool \<Rightarrow> bool" where
  "isFormValid_annualisation inputs touched_ytdIncome touched_paysReceived \<longleftrightarrow>
     (let newErrors = validateInputs_annualisation inputs touched_ytdIncome touched_paysReceived
      in error_ytdIncome newErrors = None \<and> error_paysReceived newErrors = None \<and>
         ytdIncome inputs > 0 \<and> paysReceived inputs > 0)"

definition calculateAnnualisation :: "bool \<Rightarrow> AnnualisationInputs \<Rightarrow> AnnualisationResults option" where
  "calculateAnnualisation isFormValid inputs =
    (if \<not> isFormValid then None
     else
       let ppy = payFrequencyConfig_periodsPerYear (payFrequency inputs);
           averagePay = ytdIncome inputs / paysReceived inputs;
           annualised = averagePay * ppy;
           remaining = ppy - paysReceived inputs;
           projectedRemaining = averagePay * remaining;
           weeksElapsed =
             (if payFrequency inputs = PayWeekly then paysReceived inputs
              else if payFrequency inputs = PayFortnightly then paysReceived inputs * 2
              else if payFrequency inputs = PayMonthly then paysReceived inputs * 4.33
              else paysReceived inputs * 13);
           months = weeksElapsed / 4.33
       in Some \<lparr> averagePayAmount = averagePay,
                   annualisedIncome = annualised,
                   totalPayPeriodsInYear = ppy,
                   remainingPayPeriods = remaining,
                   projectedRemainingIncome = projectedRemaining,
                   monthsElapsed = months \<rparr>)"

section \<open>Valid inputs and auxiliary notions\<close>

text \<open>
  \<open>actualResidualOf\<close> is the local constant \<open>actualResidual\<close> that both functions of the
  loan module compute, and \<open>principalToAmortizeOf\<close> the local constant
  \<open>principalToAmortize\<close>.
\<close>

definition actualResidualOf :: "LoanInputs \<Rightarrow> real" where
  "actualResidualOf inputs = (if hasResidualPayment inputs then residualPayment inputs else 0)"


text \<open>
  The valid loan parameters of the data model: a positive principal, a rate that is not
  negative, a positive term, and, when the residual is enabled, a residual that is not
  negative and is below the principal.
\<close>

definition valid_LoanInputs :: "LoanInputs \<Rightarrow> bool" where
  "valid_LoanInputs inputs \<longleftrightarrow>
     loanAmount inputs > 0 \<and> interestRate inputs \<ge> 0 \<and> loanTerm inputs > 0 \<and>
     (hasResidualPayment inputs \<longrightarrow>
        0 \<le> residualPayment inputs \<and> residualPayment inputs < loanAmount inputs)"

text \<open>
  The low-income offset in the words of the specification: the flat maximum up to a first
  threshold, a linear phase-down at a first rate up to a second threshold, a linear
  phase-down at a second rate, continuing from the value reached at the second threshold,
  up to a third threshold, and zero beyond; each segment floored at 0. The constants are
  those of \<open>calculateLITO\<close>.
\<close>

definition computeOffset_spec :: "real \<Rightarrow> real" where
  "computeOffset_spec taxable =
     (let maxOffset = 700; firstThreshold = 37500; secondThreshold = 45000;
          thirdThreshold = 66667; firstRate = 0.05; secondRate = 0.015;
          offsetAtSecond = maxOffset - (secondThreshold - firstThreshold) * firstRate
      in if taxable \<le> firstThreshold then maxOffset
         else if taxable \<le> secondThreshold
           then max 0 (maxOffset - (taxable - firstThreshold) * firstRate)
         else if taxable \<le> thirdThreshold
           then max 0 (offsetAtSecond - (taxable - secondThreshold) * secondRate)
         else 0)"

text \<open>
  The weeks a number of pays stands for, in the words of the specification, and the valid
  annualisation parameters of the data model.
\<close>

definition weeksEquivalent_spec :: "real \<Rightarrow> PayFrequency \<Rightarrow> real" where
  "weeksEquivalent_spec pays f =
     pays * (case f of PayWeekly \<Rightarrow> 1 | PayFortnightly \<Rightarrow> 2 | PayMonthly \<Rightarrow> 4.33
                     | PayQuarterly \<Rightarrow> 13)"

definition valid_AnnualisationInputs :: "AnnualisationInputs \<Rightarrow> bool" where
  "valid_AnnualisationInputs inputs \<longleftrightarrow>
     ytdIncome inputs > 0 \<and> 0 < paysReceived inputs \<and>
     paysReceived inputs \<le> payFrequencyConfig_periodsPerYear (payFrequency inputs)"

text \<open>
  Auxiliary notions for the schedule. \<open>balanceStep\<close> is the update
  \<open>remainingBalance -= principalAmount\<close> of a period before the final one, with
  \<open>principalAmount\<close> as the loop computes it, and \<open>balanceAfter\<close> its \<open>j\<close>-fold iteration.
  \<open>regularEntries\<close> is a schedule without the residual entry, which
  \<open>generateAmortizationSchedule\<close> pushes last when the residual is enabled and positive.
\<close>

definition balanceStep :: "real \<Rightarrow> real \<Rightarrow> real \<Rightarrow> real" where
  "balanceStep repayment periodicRate bal = bal - (repayment - bal * periodicRate)"

definition balanceAfter :: "real \<Rightarrow> real \<Rightarrow> real \<Rightarrow> nat \<Rightarrow> real" where
  "balanceAfter repayment periodicRate bal j = (balanceStep repayment periodicRate ^^ j) bal"


section \<open>Loan calculator: input checks and the zero-rate case\<close>


text \<open>
  \<open>calculateLoanRepayments\<close> answers \<open>null\<close> exactly when the principal is not positive,
  the rate is negative or the term is not positive: these three comparisons are its only
  checks, and the residual is not among them.
\<close>

lemma calculateLoanRepayments_rejects_iff:
  "calculateLoanRepayments inputs = None \<longleftrightarrow>
     loanAmount inputs \<le> 0 \<or> interestRate inputs < 0 \<or> loanTerm inputs \<le> 0"
  by (simp add: calculateLoanRepayments_def Let_def)

text \<open>
  In the component, a residual at or above the principal, once the residual field has
  been touched, makes the form invalid, and the component's \<open>calculateRepayments\<close> then
  answers \<open>null\<close>.
\<close>

lemma component_rejects_residual:
  assumes "hasResidualPayment inputs" and "touched_residualPayment touched"
    and "residualPayment inputs \<ge> loanAmount inputs"
  shows "calculateRepayments (isFormValid_loan inputs touched) inputs = None"
  using assms
  by (simp add: calculateRepayments_def isFormValid_loan_def noErrors_loan_def
      validateInputs_loan_def Let_def)

text \<open>
  C1, at a loan of 1000 at a rate of 0 over 1 year, paid monthly, with the residual enabled
  and equal to the principal: \<open>calculateLoanRepayments\<close> does not answer \<open>null\<close>, it returns
  a result with a repayment of 0, while the component, with every field touched, finds the
  form invalid and its \<open>calculateRepayments\<close> answers \<open>null\<close>.
\<close>

theorem residual_guard_only_in_component:
  "calculateLoanRepayments
     \<lparr> loanAmount = 1000, interestRate = 0, loanTerm = 1, repaymentFrequency = Monthly,
       hasResidualPayment = True, residualPayment = 1000 \<rparr>
   = Some \<lparr> repaymentPerPeriod = 0, totalAmountPayable = 1000, totalInterest = 0,
            periodsPerYear = 12, totalPeriods = 12 \<rparr> \<and>
   \<not> isFormValid_loan
     \<lparr> loanAmount = 1000, interestRate = 0, loanTerm = 1, repaymentFrequency = Monthly,
       hasResidualPayment = True, residualPayment = 1000 \<rparr>
     \<lparr> touched_loanAmount = True, touched_interestRate = True, touched_loanTerm = True,
       touched_residualPayment = True \<rparr> \<and>
   calculateRepayments
     (isFormValid_loan
        \<lparr> loanAmount = 1000, interestRate = 0, loanTerm = 1, repaymentFrequency = Monthly,
          hasResidualPayment = True, residualPayment = 1000 \<rparr>
        \<lparr> touched_loanAmount = True, touched_interestRate = True, touched_loanTerm = True,
          touched_residualPayment = True \<rparr>)
     \<lparr> loanAmount = 1000, interestRate = 0, loanTerm = 1, repaymentFrequency = Monthly,
       hasResidualPayment = True, residualPayment = 1000 \<rparr>
   = None"
  by (simp add: calculateLoanRepayments_def periodsPerYearOf_def calculateRepayments_def
      isFormValid_loan_def noErrors_loan_def validateInputs_loan_def Let_def)

text \<open>
  C3, as stated, at a zero-rate loan of 12000 over 12 months with a residual of 6000: the
  repayment is 500, not 12000 / 12.
\<close>

theorem residual_lowers_zero_rate_payment:
  "calculateLoanRepayments
     \<lparr> loanAmount = 12000, interestRate = 0, loanTerm = 1, repaymentFrequency = Monthly,
       hasResidualPayment = True, residualPayment = 6000 \<rparr>
   = Some \<lparr> repaymentPerPeriod = 500, totalAmountPayable = 12000, totalInterest = 0,
            periodsPerYear = 12, totalPeriods = 12 \<rparr> \<and> (500::real) \<noteq> 12000 / 12"
  by (simp add: calculateLoanRepayments_def periodsPerYearOf_def)

text \<open>
  C3 (amended): for every valid input with an annual rate of 0, the result has
  \<open>totalPeriods = loanTerm * periodsPerYear\<close>, a repayment of the principal less the
  residual in effect, divided by \<open>totalPeriods\<close>, and a total interest of 0. The residual
  in effect is \<open>residualPayment\<close> when the flag is set and 0 otherwise, so without a
  residual the repayment is \<open>principal / totalPeriods\<close>.
\<close>

theorem zero_rate_payment:
  assumes "valid_LoanInputs inputs" and "interestRate inputs = 0"
  shows "\<exists>res. calculateLoanRepayments inputs = Some res \<and>
           totalPeriods res = loanTerm inputs * periodsPerYearOf (repaymentFrequency inputs) \<and>
           repaymentPerPeriod res =
             (loanAmount inputs - actualResidualOf inputs) / totalPeriods res \<and>
           totalInterest res = 0"
  using assms
  by (simp add: calculateLoanRepayments_def Let_def actualResidualOf_def valid_LoanInputs_def)

text \<open>
  The amended C3 at the zero-rate loan of the test suite: 12000 over 12 months, no
  residual, a repayment of 1000.
\<close>

theorem zero_rate_payment_witness:
  "valid_LoanInputs
     \<lparr> loanAmount = 12000, interestRate = 0, loanTerm = 1, repaymentFrequency = Monthly,
       hasResidualPayment = False, residualPayment = 0 \<rparr> \<and>
   (\<exists>res. calculateLoanRepayments
       \<lparr> loanAmount = 12000, interestRate = 0, loanTerm = 1, repaymentFrequency = Monthly,
         hasResidualPayment = False, residualPayment = 0 \<rparr> = Some res \<and>
      totalPeriods res = 12 \<and> repaymentPerPeriod res = 1000 \<and> totalInterest res = 0)"
proof -
  let ?i = "\<lparr> loanAmount = 12000, interestRate = 0, loanTerm = 1, repaymentFrequency = Monthly,
              hasResidualPayment = False, residualPayment = 0 \<rparr>"
  have v: "valid_LoanInputs ?i" by (simp add: valid_LoanInputs_def)
  have z: "interestRate ?i = 0" by simp
  from zero_rate_payment [OF v z] obtain res where
    r: "calculateLoanRepayments ?i = Some res"
      "totalPeriods res = loanTerm ?i * periodsPerYearOf (repaymentFrequency ?i)"
      "repaymentPerPeriod res = (loanAmount ?i - actualResidualOf ?i) / totalPeriods res"
      "totalInterest res = 0"
    by blast
  from r(2) have tp: "totalPeriods res = 12" by (simp add: periodsPerYearOf_def)
  from r(3) tp have "repaymentPerPeriod res = 1000" by (simp add: actualResidualOf_def)
  with v r(1) tp r(4) show ?thesis by simp
qed

section \<open>Loan calculator: a disabled residual is not read\<close>

lemma calculateLoanRepayments_ignores_disabled_residual:
  assumes "\<not> hasResidualPayment i1" and "\<not> hasResidualPayment i2"
    and "loanAmount i1 = loanAmount i2" and "interestRate i1 = interestRate i2"
    and "loanTerm i1 = loanTerm i2" and "repaymentFrequency i1 = repaymentFrequency i2"
  shows "calculateLoanRepayments i1 = calculateLoanRepayments i2"
  using assms by (simp add: calculateLoanRepayments_def Let_def)

lemma generateAmortizationSchedule_ignores_disabled_residual:
  assumes "\<not> hasResidualPayment i1" and "\<not> hasResidualPayment i2"
    and "loanAmount i1 = loanAmount i2" and "interestRate i1 = interestRate i2"
  shows "generateAmortizationSchedule i1 calc = generateAmortizationSchedule i2 calc"
  using assms by (simp add: generateAmortizationSchedule_def Let_def split: option.split)

text \<open>
  C10: two inputs that both have the residual disabled and agree on the principal, the
  rate, the term and the frequency give the same result of \<open>calculateLoanRepayments\<close>, the
  same schedule for any given result \<open>calc\<close>, and so the same schedule for their own
  results, whatever their \<open>residualPayment\<close> fields hold.
\<close>

theorem disabled_residual_noninterference:
  assumes "\<not> hasResidualPayment i1" and "\<not> hasResidualPayment i2"
    and "loanAmount i1 = loanAmount i2" and "interestRate i1 = interestRate i2"
    and "loanTerm i1 = loanTerm i2" and "repaymentFrequency i1 = repaymentFrequency i2"
  shows "calculateLoanRepayments i1 = calculateLoanRepayments i2 \<and>
         generateAmortizationSchedule i1 calc = generateAmortizationSchedule i2 calc \<and>
         generateAmortizationSchedule i1 (calculateLoanRepayments i1) =
           generateAmortizationSchedule i2 (calculateLoanRepayments i2)"
  using calculateLoanRepayments_ignores_disabled_residual [OF assms]
    generateAmortizationSchedule_ignores_disabled_residual [OF assms(1-4)]
  by simp

text \<open>C10 at two inputs that differ only in the unused residual, 0 and 5000.\<close>

theorem disabled_residual_noninterference_witness:
  "calculateLoanRepayments
     \<lparr> loanAmount = 12000, interestRate = 6, loanTerm = 1, repaymentFrequency = Monthly,
       hasResidualPayment = False, residualPayment = 0 \<rparr> =
   calculateLoanRepayments
     \<lparr> loanAmount = 12000, interestRate = 6, loanTerm = 1, repaymentFrequency = Monthly,
       hasResidualPayment = False, residualPayment = 5000 \<rparr> \<and>
   generateAmortizationSchedule
     \<lparr> loanAmount = 12000, interestRate = 6, loanTerm = 1, repaymentFrequency = Monthly,
       hasResidualPayment = False, residualPayment = 0 \<rparr>
     (calculateLoanRepayments
        \<lparr> loanAmount = 12000, interestRate = 6, loanTerm = 1, repaymentFrequency = Monthly,
          hasResidualPayment = False, residualPayment = 0 \<rparr>) =
   generateAmortizationSchedule
     \<lparr> loanAmount = 12000, interestRate = 6, loanTerm = 1, repaymentFrequency = Monthly,
       hasResidualPayment = False, residualPayment = 5000 \<rparr>
     (calculateLoanRepayments
        \<lparr> loanAmount = 12000, interestRate = 6, loanTerm = 1, repaymentFrequency = Monthly,
          hasResidualPayment = False, residualPayment = 5000 \<rparr>)"
  using disabled_residual_noninterference
    [of "\<lparr> loanAmount = 12000, interestRate = 6, loanTerm = 1, repaymentFrequency = Monthly,
           hasResidualPayment = False, residualPayment = 0 \<rparr>"
        "\<lparr> loanAmount = 12000, interestRate = 6, loanTerm = 1, repaymentFrequency = Monthly,
           hasResidualPayment = False, residualPayment = 5000 \<rparr>"]
  by simp

section \<open>Income tax: brackets, offset and breakdown\<close>

lemma computeOffset_spec_eq: "computeOffset_spec x = calculateLITO x"
  by (simp add: computeOffset_spec_def calculateLITO_def)

lemma calculateLITO_nonneg: "0 \<le> calculateLITO x"
  by (simp add: calculateLITO_def)

lemma calculateIncomeTax_eq:
  "calculateIncomeTax x = max 0 (computeBracketTax_spec x - calculateLITO x)"
  by (simp add: calculateIncomeTax_def computeBracketTax_spec_def bracketTable_spec_def
      portionInBracket_spec_def Let_def)

text \<open>
  C7: for every input the form accepts, the result of \<open>calculateTax\<close> has the annualised
  income as gross income, the gross income as taxable income, and as income tax the
  larger of 0 and the progressive bracket tax less the low-income offset, both of the
  taxable income.
\<close>

theorem incomeTax_is_bracket_tax_less_offset:
  assumes "isFormValid_tax inputs touched"
  shows "\<exists>res. calculateTax (isFormValid_tax inputs touched) inputs = Some res \<and>
           grossIncome res = getAnnualIncome (income inputs) (incomeFrequency inputs) \<and>
           taxableIncome res = grossIncome res \<and>
           incomeTax res =
             max 0 (computeBracketTax_spec (taxableIncome res) -
                    computeOffset_spec (taxableIncome res))"
  using assms
  by (simp add: calculateTax_def Let_def calculateIncomeTax_eq computeOffset_spec_eq)

text \<open>
  C7 at a weekly income of 1000: the taxable income is 52000, the bracket tax
  \<open>0.16 * 26800 + 0.30 * 7000 = 6388\<close>, the offset \<open>325 - 0.015 * 7000 = 220\<close>, the income
  tax 6168.
\<close>

theorem incomeTax_is_bracket_tax_less_offset_witness:
  "isFormValid_tax \<lparr> income = 1000, incomeFrequency = IncomeWeekly \<rparr> True \<and>
   (\<exists>res. calculateTax True \<lparr> income = 1000, incomeFrequency = IncomeWeekly \<rparr> = Some res \<and>
      taxableIncome res = 52000 \<and> incomeTax res = 6168)"
proof -
  let ?i = "\<lparr> income = 1000, incomeFrequency = IncomeWeekly \<rparr>"
  have v: "isFormValid_tax ?i True"
    by (simp add: isFormValid_tax_def validateInputs_tax_def)
  from incomeTax_is_bracket_tax_less_offset [OF v] obtain res where
    r: "calculateTax (isFormValid_tax ?i True) ?i = Some res"
      "grossIncome res = getAnnualIncome (income ?i) (incomeFrequency ?i)"
      "taxableIncome res = grossIncome res"
      "incomeTax res = max 0 (computeBracketTax_spec (taxableIncome res) -
                              computeOffset_spec (taxableIncome res))"
    by blast
  from r(2,3) have t: "taxableIncome res = 52000" by (simp add: getAnnualIncome_def)
  have "incomeTax res = 6168"
    unfolding r(4) t
    by (simp add: computeBracketTax_spec_def bracketTable_spec_def portionInBracket_spec_def
        computeOffset_spec_def)
  with v r(1) t show ?thesis by simp
qed

lemma breakdownTotal_eq:
  "breakdownTotal (taxBreakdown True (Some res)) =
     computeBracketTax_spec (grossIncome res) - calculateLITO (grossIncome res)"
proof (cases "0 < calculateLITO (grossIncome res)")
  case True
  then show ?thesis
    by (simp add: breakdownTotal_def taxBreakdown_def Let_def computeBracketTax_spec_def
        bracketTable_spec_def portionInBracket_spec_def)
next
  case False
  with calculateLITO_nonneg [of "grossIncome res"]
  have z: "calculateLITO (grossIncome res) = 0" by linarith
  show ?thesis
    by (simp add: z breakdownTotal_def taxBreakdown_def Let_def computeBracketTax_spec_def
        bracketTable_spec_def portionInBracket_spec_def)
qed

lemma incomeTax_is_clamped_breakdownTotal:
  assumes "calculateTax True inputs = Some res"
  shows "incomeTax res = max 0 (breakdownTotal (taxBreakdown True (Some res)))"
  using assms
  by (auto simp: breakdownTotal_eq calculateTax_def Let_def calculateIncomeTax_eq)

lemma bracketTax_ge_offset_iff:
  "calculateLITO g \<le> computeBracketTax_spec g \<longleftrightarrow> 22575 \<le> g"
  by (auto simp: calculateLITO_def computeBracketTax_spec_def
        bracketTable_spec_def portionInBracket_spec_def) argo+

text \<open>
  The total of the breakdown lines is the bracket tax less the whole offset, without the
  floor at 0 that \<open>calculateIncomeTax\<close> applies: the two agree exactly from a taxable
  income of 22575 on, where the bracket tax has reached the offset of 700.
\<close>

lemma breakdownTotal_is_incomeTax_iff:
  assumes "calculateTax True inputs = Some res"
  shows "breakdownTotal (taxBreakdown True (Some res)) = incomeTax res \<longleftrightarrow>
         grossIncome res \<ge> 22575"
  using bracketTax_ge_offset_iff [of "grossIncome res"]
  unfolding incomeTax_is_clamped_breakdownTotal [OF assms] breakdownTotal_eq
  by auto

text \<open>
  C2, at an annual income of 20000, which the form accepts: the breakdown has the lines 0,
  288 and -700, whose total, the figure shown as total income tax, is -412, while the
  income tax of the result is 0.
\<close>

theorem breakdownTotal_below_incomeTax:
  "isFormValid_tax \<lparr> income = 20000, incomeFrequency = IncomeAnnual \<rparr> True \<and>
   map taxAmount (taxBreakdown True
       (calculateTax True \<lparr> income = 20000, incomeFrequency = IncomeAnnual \<rparr>)) =
     [0, 288, - 700] \<and>
   breakdownTotal (taxBreakdown True
       (calculateTax True \<lparr> income = 20000, incomeFrequency = IncomeAnnual \<rparr>)) = - 412 \<and>
   map_option incomeTax (calculateTax True \<lparr> income = 20000, incomeFrequency = IncomeAnnual \<rparr>)
     = Some 0"
  by (simp add: breakdownTotal_def taxBreakdown_def calculateTax_def Let_def getAnnualIncome_def
      calculateLITO_def calculateIncomeTax_def isFormValid_tax_def validateInputs_tax_def)

section \<open>Income tax: the marginal rate lookup\<close>

text \<open>
  Every whole-dollar income from 0 on lies in exactly one bracket of \<open>taxBrackets\<close>.
\<close>

lemma whole_dollar_income_in_one_bracket:
  assumes "x \<in> \<int>" and "0 \<le> x"
  shows "length (filter (\<lambda>b. bracketMatches b x) taxBrackets) = 1"
proof -
  from assms(1) obtain k :: int where k: "x = of_int k" by (auto elim: Ints_cases)
  with assms(2) have "0 \<le> k" by simp
  then show ?thesis
    unfolding k by (simp add: taxBrackets_def bracketMatches_def)
qed

text \<open>
  C8, at a taxable income of 45000.50: no bracket of \<open>taxBrackets\<close> matches, since each
  bracket starts one dollar above the end of the one before, and \<open>getMarginalTaxRate\<close>
  falls through to its final \<open>return 0\<close>; at 45000 it returns 0.16 and at 45001 it returns
  0.30.
\<close>

theorem getMarginalTaxRate_gap:
  "filter (\<lambda>b. bracketMatches b 45000.5) taxBrackets = [] \<and>
   getMarginalTaxRate 45000.5 = 0 \<and>
   getMarginalTaxRate 45000 = 0.16 \<and> getMarginalTaxRate 45001 = 0.30"
  by (simp add: getMarginalTaxRate_def taxBrackets_def bracketMatches_def)

section \<open>Income annualisation\<close>

text \<open>
  C9: for every valid input, whatever fields have been touched, the form is valid and the
  result has \<open>averagePay = ytdIncome / paysReceived\<close>,
  \<open>annualisedIncome = averagePay * periodsPerYear\<close>, the periods per year of the frequency,
  \<open>remainingPeriods = periodsPerYear - paysReceived\<close>,
  \<open>projectedRemainingIncome = averagePay * remainingPeriods\<close> and
  \<open>monthsElapsed = weeksEquivalent / 4.33\<close>.
\<close>

theorem calculateAnnualisation_fields:
  assumes "valid_AnnualisationInputs inputs"
  shows "isFormValid_annualisation inputs touched_ytd touched_pays \<and>
    (\<exists>res. calculateAnnualisation (isFormValid_annualisation inputs touched_ytd touched_pays)
              inputs = Some res \<and>
       averagePayAmount res = ytdIncome inputs / paysReceived inputs \<and>
       annualisedIncome res =
         averagePayAmount res * payFrequencyConfig_periodsPerYear (payFrequency inputs) \<and>
       totalPayPeriodsInYear res = payFrequencyConfig_periodsPerYear (payFrequency inputs) \<and>
       remainingPayPeriods res =
         payFrequencyConfig_periodsPerYear (payFrequency inputs) - paysReceived inputs \<and>
       projectedRemainingIncome res = averagePayAmount res * remainingPayPeriods res \<and>
       monthsElapsed res =
         weeksEquivalent_spec (paysReceived inputs) (payFrequency inputs) / 4.33)"
  using assms
  by (cases "payFrequency inputs")
     (simp_all add: valid_AnnualisationInputs_def calculateAnnualisation_def
      isFormValid_annualisation_def validateInputs_annualisation_def Let_def
      weeksEquivalent_spec_def)

text \<open>
  C9 at a year-to-date income of 26000 over 13 fortnightly pays: an average pay of 2000,
  an annualised income of 52000 and 13 remaining periods.
\<close>

theorem calculateAnnualisation_fields_witness:
  "valid_AnnualisationInputs
     \<lparr> ytdIncome = 26000, paysReceived = 13, payFrequency = PayFortnightly \<rparr> \<and>
   (\<exists>res. calculateAnnualisation True
       \<lparr> ytdIncome = 26000, paysReceived = 13, payFrequency = PayFortnightly \<rparr> = Some res \<and>
      averagePayAmount res = 2000 \<and> annualisedIncome res = 52000 \<and>
      remainingPayPeriods res = 13 \<and> projectedRemainingIncome res = 26000 \<and>
      monthsElapsed res = 26 / 4.33)"
proof -
  let ?i = "\<lparr> ytdIncome = 26000, paysReceived = 13, payFrequency = PayFortnightly \<rparr>"
  have v: "valid_AnnualisationInputs ?i"
    by (simp add: valid_AnnualisationInputs_def payFrequencyConfig_periodsPerYear_def)
  from calculateAnnualisation_fields [OF v, of True True]
  show ?thesis
    using v
    by (auto simp: payFrequencyConfig_periodsPerYear_def weeksEquivalent_spec_def)
qed

section \<open>Loan calculator: the schedule loop\<close>

lemma regularEntry_fields [simp]:
  "paymentNumber (regularEntry p r n b) = real n"
  "paymentAmount (regularEntry p r n b) = p"
  "principalAmount (regularEntry p r n b) = p - b * r"
  "interestAmount (regularEntry p r n b) = b * r"
  "remainingBalance (regularEntry p r n b) = max 0 (balanceStep p r b)"
  by (simp_all add: regularEntry_def balanceStep_def Let_def)

lemma finalEntry_fields [simp]:
  "paymentNumber (finalEntry r n b) = real n"
  "paymentAmount (finalEntry r n b) = b + b * r"
  "principalAmount (finalEntry r n b) = b"
  "interestAmount (finalEntry r n b) = b * r"
  "remainingBalance (finalEntry r n b) = 0"
  by (simp_all add: finalEntry_def Let_def)

lemma balloonEntry_fields [simp]:
  "paymentNumber (balloonEntry T x) = T + 1"
  "paymentAmount (balloonEntry T x) = x"
  "principalAmount (balloonEntry T x) = x"
  "interestAmount (balloonEntry T x) = 0"
  "remainingBalance (balloonEntry T x) = 0"
  by (simp_all add: balloonEntry_def)










text \<open>
  The balance after \<open>j\<close> periods before the final one.
\<close>

lemma balanceAfter_0 [simp]: "balanceAfter p r b 0 = b"
  by (simp add: balanceAfter_def)




section \<open>Loan calculator: the generated schedule\<close>








end
